theory Spec2Isabelle
  imports Complex_Main "HOL-Library.AList" "HOL-Library.Word"
begin

section \<open>Values\<close>

text \<open>
  The values the TypeScript code handles as \<open>unknown\<close>: parsed JSON, row fields, filter
  values, tool results. \<open>VObj\<close> lists the own properties of a plain object in insertion
  order, each key once. Numbers are restricted to integers; the one place where
  fractional numbers matter (the rounding of rates) is modelled on rationals below.
\<close>

datatype jsval =
    VUndef
  | VNull
  | VBool bool
  | VNum int
  | VStr string
  | VArr "jsval list"
  | VObj "(string \<times> jsval) list"

text \<open>JavaScript truthiness (\<open>!v\<close> is \<open>\<not> truthy v\<close>).\<close>

fun truthy :: "jsval \<Rightarrow> bool" where
  "truthy VUndef = False"
| "truthy VNull = False"
| "truthy (VBool b) = b"
| "truthy (VNum n) = (n \<noteq> 0)"
| "truthy (VStr s) = (s \<noteq> [])"
| "truthy (VArr _) = True"
| "truthy (VObj _) = True"

section \<open>Strings\<close>

text \<open>\<open>Array.prototype.join\<close> on strings.\<close>

fun join :: "string \<Rightarrow> string list \<Rightarrow> string" where
  "join sep [] = []"
| "join sep [x] = x"
| "join sep (x # y # ys) = x @ sep @ join sep (y # ys)"

definition digit_char :: "nat \<Rightarrow> char" where
  "digit_char d = ''0123456789abcdef'' ! d"

text \<open>\<open>Number.prototype.toString(radix)\<close> on a non-negative integer, radix 10 or 16.\<close>

function toString_radix :: "nat \<Rightarrow> nat \<Rightarrow> string" where
  "toString_radix r n =
     (if r < 2 \<or> n < r then [digit_char n]
      else toString_radix r (n div r) @ [digit_char (n mod r)])"
  by pat_completeness auto
termination
  by (relation "measure (\<lambda>(r, n). n)") auto

declare toString_radix.simps [simp del]

text \<open>\<open>String.prototype.padStart(n, '0')\<close>.\<close>

definition padStart :: "nat \<Rightarrow> char \<Rightarrow> string \<Rightarrow> string" where
  "padStart n c s = replicate (n - length s) c @ s"

text \<open>
  \<open>String(v)\<close>, which template literals apply too. An integer prints in decimal (the
  code never meets one beyond 21 digits, where JavaScript switches to exponents); an
  array joins its converted elements with commas, \<open>null\<close> and \<open>undefined\<close> elements
  giving the empty string; a plain object gives \<open>[object Object]\<close>.
\<close>

fun js_String :: "jsval \<Rightarrow> string" where
  "js_String VUndef = ''undefined''"
| "js_String VNull = ''null''"
| "js_String (VBool b) = (if b then ''true'' else ''false'')"
| "js_String (VNum n) =
     (if n < 0 then ''-'' @ toString_radix 10 (nat (- n)) else toString_radix 10 (nat n))"
| "js_String (VStr s) = s"
| "js_String (VArr xs) =
     join '','' (map (\<lambda>x. if x = VUndef \<or> x = VNull then [] else js_String x) xs)"
| "js_String (VObj _) = ''[object Object]''"

text \<open>
  \<open>JSON.stringify(v, null, gap)\<close> on these values: \<open>gap = 0\<close> is the compact form of
  \<open>JSON.stringify(v)\<close>, \<open>ind\<close> is the current indentation. A string is quoted with the
  escapes of the standard; \<open>undefined\<close> prints as \<open>null\<close> inside an array and drops its
  property inside an object. (At top level \<open>JSON.stringify(undefined)\<close> is \<open>undefined\<close>, not
  a string: the callers below test for it.)
\<close>

definition json_escape :: "char \<Rightarrow> string" where
  "json_escape c =
     (if c = CHR 0x22 then [CHR 0x5C, CHR 0x22]
      else if c = CHR 0x5C then [CHR 0x5C, CHR 0x5C]
      else if c = CHR 0x08 then [CHR 0x5C, CHR ''b'']
      else if c = CHR 0x09 then [CHR 0x5C, CHR ''t'']
      else if c = CHR 0x0A then [CHR 0x5C, CHR ''n'']
      else if c = CHR 0x0C then [CHR 0x5C, CHR ''f'']
      else if c = CHR 0x0D then [CHR 0x5C, CHR ''r'']
      else if (of_char c :: nat) < 32
        then [CHR 0x5C, CHR ''u'', CHR ''0'', CHR ''0''] @ padStart 2 (CHR ''0'') (toString_radix 16 (of_char c))
      else [c])"

definition json_quote :: "string \<Rightarrow> string" where
  "json_quote s = [CHR 0x22] @ concat (map json_escape s) @ [CHR 0x22]"

fun JSON_stringify :: "nat \<Rightarrow> nat \<Rightarrow> jsval \<Rightarrow> string" where
  "JSON_stringify gap ind VUndef = ''null''"
| "JSON_stringify gap ind VNull = ''null''"
| "JSON_stringify gap ind (VBool b) = (if b then ''true'' else ''false'')"
| "JSON_stringify gap ind (VNum n) = js_String (VNum n)"
| "JSON_stringify gap ind (VStr s) = json_quote s"
| "JSON_stringify gap ind (VArr xs) =
     (if xs = [] then ''[]''
      else if gap = 0 then ''['' @ join '','' (map (JSON_stringify gap ind) xs) @ '']''
      else ''['' @ [CHR 0x0A] @ replicate (ind + gap) (CHR '' '') @
           join ('','' @ [CHR 0x0A] @ replicate (ind + gap) (CHR '' ''))
             (map (JSON_stringify gap (ind + gap)) xs) @
           [CHR 0x0A] @ replicate ind (CHR '' '') @ '']'')"
| "JSON_stringify gap ind (VObj fs) =
     (let ms = filter (\<lambda>kv. snd kv \<noteq> VUndef) fs in
      if ms = [] then ''{}''
      else if gap = 0
        then ''{'' @ join '','' (map (\<lambda>kv. json_quote (fst kv) @ '':'' @ JSON_stringify gap ind (snd kv)) ms) @ ''}''
      else ''{'' @ [CHR 0x0A] @ replicate (ind + gap) (CHR '' '') @
           join ('','' @ [CHR 0x0A] @ replicate (ind + gap) (CHR '' ''))
             (map (\<lambda>kv. json_quote (fst kv) @ '': '' @ JSON_stringify gap (ind + gap) (snd kv)) ms) @
           [CHR 0x0A] @ replicate ind (CHR '' '') @ ''}'')"

text \<open>Reading a property of a plain object: \<open>undefined\<close> when the key is not there.\<close>

type_synonym Row = "(string \<times> jsval) list"

definition get :: "Row \<Rightarrow> string \<Rightarrow> jsval" where
  "get row k = (case map_of row k of None \<Rightarrow> VUndef | Some v \<Rightarrow> v)"

section \<open>Storage engine (src/db/sqlite.ts)\<close>

datatype filter_op =
  OpEq | OpNeq | OpGt | OpGte | OpLt | OpLte | OpLike | OpIlike | OpIs | OpIn | OpCs

record Filter =
  column :: string
  op :: filter_op
  fvalue :: jsval

datatype direction = Asc | Desc

datatype nulls_placement = NullsFirst | NullsLast

record OrderBy =
  ocolumn :: string
  direction :: direction
  nulls :: "nulls_placement option"

record QueryOptions =
  table :: string
  select :: "string list option"
  filters :: "Filter list option"
  order :: "OrderBy list option"
  limit :: "int option"
  offset :: "int option"

text \<open>
  \<open>generateId\<close>: sixteen random bytes, each printed as two lowercase hex digits. The
  random source \<open>crypto.getRandomValues\<close> is the parameter \<open>rnd\<close>: \<open>rnd i\<close> is the byte
  it wrote at index \<open>i\<close> of the array.
\<close>

definition generateId :: "(nat \<Rightarrow> 8 word) \<Rightarrow> string" where
  "generateId rnd =
     concat (map (\<lambda>b. padStart 2 (CHR ''0'') (toString_radix 16 (unat b))) (map rnd [0..<16]))"

text \<open>\<open>serializeValue\<close>.\<close>

fun serializeValue :: "jsval \<Rightarrow> jsval" where
  "serializeValue VNull = VNull"
| "serializeValue VUndef = VNull"
| "serializeValue (VArr xs) = VStr (JSON_stringify 0 0 (VArr xs))"
| "serializeValue (VObj fs) = VStr (JSON_stringify 0 0 (VObj fs))"
| "serializeValue (VBool b) = VNum (if b then 1 else 0)"
| "serializeValue v = v"

text \<open>
  One pass of the loop of \<open>buildWhere\<close>: the clauses and the parameters that one filter
  pushes. Every operator pushes one clause, except \<open>in\<close>, which pushes one only when its
  value is a non-empty array.
\<close>

definition filter_clause :: "Filter \<Rightarrow> string list \<times> jsval list" where
  "filter_clause f =
     (case op f of
        OpEq \<Rightarrow> ([column f @ '' = ?''], [serializeValue (fvalue f)])
      | OpNeq \<Rightarrow> ([column f @ '' != ?''], [serializeValue (fvalue f)])
      | OpGt \<Rightarrow> ([column f @ '' > ?''], [fvalue f])
      | OpGte \<Rightarrow> ([column f @ '' >= ?''], [fvalue f])
      | OpLt \<Rightarrow> ([column f @ '' < ?''], [fvalue f])
      | OpLte \<Rightarrow> ([column f @ '' <= ?''], [fvalue f])
      | OpLike \<Rightarrow> ([column f @ '' LIKE ?''], [fvalue f])
      | OpIlike \<Rightarrow> ([column f @ '' LIKE ? COLLATE NOCASE''], [fvalue f])
      | OpIs \<Rightarrow>
          (if fvalue f = VNull then ([column f @ '' IS NULL''], [])
           else ([column f @ '' IS ?''], [fvalue f]))
      | OpIn \<Rightarrow>
          (case fvalue f of
             VArr xs \<Rightarrow>
               (if length xs > 0
                then ([column f @ '' IN ('' @ join '', '' (map (\<lambda>_. ''?'') xs) @ '')''], xs)
                else ([], []))
           | _ \<Rightarrow> ([], []))
      | OpCs \<Rightarrow> ([column f @ '' LIKE ?''], [VStr (''%'' @ js_String (fvalue f) @ ''%'')]))"

definition buildWhere :: "Filter list \<Rightarrow> string \<times> jsval list" where
  "buildWhere fs =
     (if fs = [] then ([], [])
      else (''WHERE '' @ join '' AND '' (concat (map (fst \<circ> filter_clause) fs)),
            concat (map (snd \<circ> filter_clause) fs)))"

text \<open>An \<open>in\<close> filter with an empty value list.\<close>

definition empty_in :: "Filter \<Rightarrow> bool" where
  "empty_in f = (op f = OpIn \<and> fvalue f = VArr [])"

text \<open>
  \<open>String.prototype.trim\<close> on the statement text: the characters it removes are the
  white space and line terminators, here those below code 256.
\<close>

definition is_space :: "char \<Rightarrow> bool" where
  "is_space c = (of_char c \<in> {9, 10, 11, 12, 13, 32, 160 :: nat})"

definition trim :: "string \<Rightarrow> string" where
  "trim s = rev (dropWhile is_space (rev (dropWhile is_space s)))"

definition order_clause :: "OrderBy \<Rightarrow> string" where
  "order_clause o' =
     ocolumn o' @ '' '' @ (case direction o' of Asc \<Rightarrow> ''asc'' | Desc \<Rightarrow> ''desc'') @
     (if nulls o' = Some NullsLast then '' NULLS LAST'' else []) @
     (if nulls o' = Some NullsFirst then '' NULLS FIRST'' else [])"

definition buildSelect :: "QueryOptions \<Rightarrow> string \<times> jsval list" where
  "buildSelect opts =
     (let sel = (case select opts of Some cols \<Rightarrow> join '', '' cols | None \<Rightarrow> ''*'');
          (wh, params) = (case filters opts of Some fs \<Rightarrow> buildWhere fs | None \<Rightarrow> ([], []));
          orderBy = (case order opts of
                       None \<Rightarrow> []
                     | Some os \<Rightarrow> if os = [] then [] else ''ORDER BY '' @ join '', '' (map order_clause os));
          limitClause = (case limit opts of
                       None \<Rightarrow> []
                     | Some n \<Rightarrow> ''LIMIT '' @ js_String (VNum n) @
                         (case offset opts of None \<Rightarrow> [] | Some m \<Rightarrow> '' OFFSET '' @ js_String (VNum m)))
      in (trim (''SELECT '' @ sel @ '' FROM '' @ table opts @ '' '' @ wh @ '' '' @ orderBy @ '' '' @ limitClause),
          params))"

text \<open>
  The database handle. \<open>db.prepare(sql).all(...params)\<close> is the parameter \<open>run\<close>: from the
  statement text, the bound parameters and the database it gives the rows, or the message
  of the error it throws, and the database after the statement. \<open>.get\<close> is the first row of
  the same, or \<open>undefined\<close>.
\<close>

type_synonym 'db sqlite = "string \<Rightarrow> jsval list \<Rightarrow> 'db \<Rightarrow> (string + Row list) \<times> 'db"

definition query :: "'db sqlite \<Rightarrow> QueryOptions \<Rightarrow> 'db \<Rightarrow> (string + Row list) \<times> 'db" where
  "query run opts db = (let (sql, params) = buildSelect opts in run sql params db)"

definition queryOne :: "'db sqlite \<Rightarrow> QueryOptions \<Rightarrow> 'db \<Rightarrow> (string + Row option) \<times> 'db" where
  "queryOne run opts db =
     (case query run (opts\<lparr>limit := Some 1\<rparr>) db of
        (Inl e, db') \<Rightarrow> (Inl e, db')
      | (Inr rows, db') \<Rightarrow> (Inr (case rows of [] \<Rightarrow> None | r # _ \<Rightarrow> Some r), db'))"

text \<open>
  \<open>insert\<close>. The row object is passed by reference and \<open>data.id = ...\<close> writes into it, so
  the model returns, first, the caller's object as \<open>insert\<close> leaves it, then the outcome
  and the database. Assigning a property keeps the position of an existing key and
  appends a new one (\<open>AList.update\<close>); \<open>Object.keys\<close> lists the keys in that order (column
  names are not written as integers, which JavaScript would list first).
\<close>

definition insert_statement :: "string \<Rightarrow> Row \<Rightarrow> string \<times> jsval list" where
  "insert_statement tbl data =
     (let columns = map fst data;
          placeholders = map (\<lambda>_. ''?'') columns;
          vals = map (\<lambda>c. serializeValue (get data c)) columns
      in (''INSERT INTO '' @ tbl @ '' ('' @ join '', '' columns @ '') VALUES ('' @
            join '', '' placeholders @ '') RETURNING *'', vals))"

definition insert_row ::
  "(nat \<Rightarrow> 8 word) \<Rightarrow> 'db sqlite \<Rightarrow> string \<Rightarrow> Row \<Rightarrow> 'db \<Rightarrow> Row \<times> (string + Row) \<times> 'db" where
  "insert_row rnd run tbl data db =
     (let data' = (if \<not> truthy (get data ''id'')
                   then AList.update ''id'' (VStr (generateId rnd)) data else data);
          (sql, vals) = insert_statement tbl data'
      in case run sql vals db of
           (Inl e, db') \<Rightarrow> (data', Inl e, db')
         | (Inr rows, db') \<Rightarrow> (data', Inr (case rows of [] \<Rightarrow> data' | r # _ \<Rightarrow> r), db'))"

subsection \<open>Migrations\<close>

text \<open>
  For \<open>migrate\<close> the database is seen as two parts: the ledger table \<open>_migrations\<close>, a
  list of names (\<open>None\<close> while the table does not exist), and everything else, of any type
  \<open>'d\<close>. \<open>db.exec(sql)\<close> on a migration script is the parameter \<open>exec\<close>: it gives the
  database after the call and whether the call returned (\<open>True\<close>) or threw. The scripts
  are taken not to touch the ledger.
\<close>

record Migration =
  name :: string
  sql :: string

record 'd store =
  content :: 'd
  ledger :: "string list option"

type_synonym 'd exec = "string \<Rightarrow> 'd \<Rightarrow> bool \<times> 'd"

text \<open>How \<open>migrate\<close> ends: it returns, or one of its two statements throws.\<close>

datatype outcome = Returned | ScriptThrew string | LedgerInsertThrew string

text \<open>
  \<open>INSERT INTO _migrations (name) VALUES (?)\<close>: \<open>name\<close> is the primary key, so the
  statement throws on a name the ledger has.
\<close>

definition ledger_insert :: "string \<Rightarrow> string list \<Rightarrow> string list option" where
  "ledger_insert n l = (if n \<in> set l then None else Some (l @ [n]))"

text \<open>
  The loop of \<open>migrate\<close> over the migrations still to visit: \<open>applied\<close> is the set read
  from the ledger before the loop, \<open>d\<close> and \<open>l\<close> the content and the ledger now. The third
  component of the result is not program state: it lists, in order, the scripts the loop
  handed to \<open>db.exec\<close>, each by the name of its migration and whether the call returned,
  so that "no script was executed" and "the script ran to its end" can be stated.
\<close>

fun run_pending ::
  "'d exec \<Rightarrow> string set \<Rightarrow> Migration list \<Rightarrow> 'd \<Rightarrow> string list \<Rightarrow>
   outcome \<times> ('d \<times> string list) \<times> (string \<times> bool) list" where
  "run_pending exec applied [] d l = (Returned, (d, l), [])"
| "run_pending exec applied (m # ms) d l =
     (if name m \<in> applied then run_pending exec applied ms d l
      else case exec (sql m) d of
             (False, d') \<Rightarrow> (ScriptThrew (name m), (d', l), [(name m, False)])
           | (True, d') \<Rightarrow>
               (case ledger_insert (name m) l of
                  None \<Rightarrow> (LedgerInsertThrew (name m), (d', l), [(name m, True)])
                | Some l' \<Rightarrow>
                    (case run_pending exec applied ms d' l' of
                       (out, s, executed) \<Rightarrow> (out, s, (name m, True) # executed))))"

text \<open>
  \<open>migrate\<close>: \<open>CREATE TABLE IF NOT EXISTS _migrations\<close> makes an absent ledger the empty
  one; the names in it are read once; then the loop runs. The module constant
  \<open>MIGRATIONS\<close> (three migrations, \<open>001_core.sql\<close>, \<open>002_editorial.sql\<close>, \<open>003_usage.sql\<close>) is
  a parameter, so that what is proved holds for any list of migrations.
\<close>

definition ledger_rows :: "'d store \<Rightarrow> string list" where
  "ledger_rows s = (case ledger s of None \<Rightarrow> [] | Some l \<Rightarrow> l)"

definition migrate ::
  "'d exec \<Rightarrow> Migration list \<Rightarrow> 'd store \<Rightarrow> outcome \<times> 'd store \<times> (string \<times> bool) list" where
  "migrate exec MIGRATIONS s =
     (case run_pending exec (set (ledger_rows s)) MIGRATIONS (content s) (ledger_rows s) of
        (out, (d, l), executed) \<Rightarrow> (out, \<lparr>content = d, ledger = Some l\<rparr>, executed))"

section \<open>Transport framer (src/local/stdio.ts)\<close>

text \<open>
  The buffer is a JavaScript string; here a list of characters with codes below 256.
  \<open>indexOf\<close>, \<open>slice\<close> and \<open>length\<close> count characters, as the code does.
\<close>

definition CR :: char where "CR = CHR 0x0D"
definition LF :: char where "LF = CHR 0x0A"

fun indexOf :: "string \<Rightarrow> string \<Rightarrow> nat option" where
  "indexOf pat [] = (if pat = [] then Some 0 else None)"
| "indexOf pat (c # cs) =
     (if take (length pat) (c # cs) = pat then Some 0
      else map_option Suc (indexOf pat cs))"

definition is_digit :: "char \<Rightarrow> bool" where
  "is_digit c = (48 \<le> (of_char c :: nat) \<and> (of_char c :: nat) \<le> 57)"

definition to_lower :: "char \<Rightarrow> char" where
  "to_lower c = (if 65 \<le> (of_char c :: nat) \<and> (of_char c :: nat) \<le> 90
                 then char_of (of_char c + 32 :: nat) else c)"

text \<open>
  \<open>header.match(/Content-Length:\s*(\d+)/i)\<close>: the captured digits of the leftmost
  match. At one start position the match is the literal, compared without case, then
  all the white space that follows, then all the digits that follow, at least one.
\<close>

definition match_here :: "string \<Rightarrow> string option" where
  "match_here s =
     (if map to_lower (take 15 s) = ''content-length:''
      then (let ds = takeWhile is_digit (dropWhile is_space (drop 15 s))
            in if ds = [] then None else Some ds)
      else None)"

fun match_content_length :: "string \<Rightarrow> string option" where
  "match_content_length [] = None"
| "match_content_length (c # cs) =
     (case match_here (c # cs) of
        Some ds \<Rightarrow> Some ds
      | None \<Rightarrow> match_content_length cs)"

text \<open>
  \<open>parseInt(digits, 10)\<close> on a string of decimal digits (exact here; a double is exact
  up to sixteen digits).
\<close>

definition parseInt :: "string \<Rightarrow> nat" where
  "parseInt ds = foldl (\<lambda>n c. 10 * n + (of_char c - 48)) 0 ds"

text \<open>
  The first half of one pass of the loop: when the buffer holds a blank line and the
  text before it matches, the content length and the index where the body starts.
\<close>

definition frame_header :: "string \<Rightarrow> (nat \<times> nat) option" where
  "frame_header buffer =
     (case indexOf [CR, LF, CR, LF] buffer of
        None \<Rightarrow> None
      | Some headerEnd \<Rightarrow>
          (case match_content_length (take headerEnd buffer) of
             None \<Rightarrow> None
           | Some ds \<Rightarrow> Some (parseInt ds, headerEnd + 4)))"

text \<open>
  \<open>processBuffer\<close>: the bodies handed to \<open>handleMessage\<close>, in order, and the buffer the
  loop leaves. (\<open>handleMessage\<close> does not touch the buffer, so the bodies can be collected
  first and handled afterwards.)
\<close>

function processBuffer :: "string \<Rightarrow> string list \<times> string" where
  "processBuffer buffer =
     (if buffer = [] then ([], buffer)
      else case frame_header buffer of
        Some (contentLength, bodyStart) \<Rightarrow>
          (if length buffer - bodyStart < contentLength then ([], buffer)
           else (case processBuffer (drop (bodyStart + contentLength) buffer) of
                   (bodies, rest) \<Rightarrow> (take contentLength (drop bodyStart buffer) # bodies, rest)))
      | None \<Rightarrow>
          (case indexOf [LF] buffer of
             None \<Rightarrow> ([], buffer)
           | Some lineEnd \<Rightarrow>
               (case processBuffer (drop (lineEnd + 1) buffer) of
                  (bodies, rest) \<Rightarrow>
                    (let line = trim (take lineEnd buffer)
                     in (if line \<noteq> [] then line # bodies else bodies, rest)))))"
  by pat_completeness auto
termination
proof (relation "measure length")
  show "wf (measure length)" by simp
next
  fix buffer :: string and x2 x y
  assume "buffer \<noteq> []" and "frame_header buffer = Some x2" and "(x, y) = x2"
  then have "0 < y" by (auto simp: frame_header_def split: option.splits)
  with \<open>buffer \<noteq> []\<close> show "(drop (y + x) buffer, buffer) \<in> measure length" by simp
next
  fix buffer :: string and x2 :: nat
  assume "buffer \<noteq> []"
  then show "(drop (x2 + 1) buffer, buffer) \<in> measure length" by simp
qed

declare processBuffer.simps [simp del]

text \<open>
  The \<open>data\<close> event: the chunk is appended to the buffer and the buffer is drained.
  \<open>feed\<close> delivers the chunks of a list one after the other, each drained before the next
  arrives, and collects the bodies.
\<close>

definition on_data :: "string \<Rightarrow> string \<Rightarrow> string list \<times> string" where
  "on_data buffer chunk = processBuffer (buffer @ chunk)"

fun feed :: "string \<Rightarrow> string list \<Rightarrow> string list \<times> string" where
  "feed buffer [] = ([], buffer)"
| "feed buffer (chunk # chunks) =
     (case on_data buffer chunk of
        (bodies, buffer') \<Rightarrow>
          (case feed buffer' chunks of (later, rest) \<Rightarrow> (bodies @ later, rest)))"

section \<open>Auth resolver (src/auth.ts)\<close>

datatype role = Owner | Public

record AuthContext =
  role :: role

text \<open>
  An optional string parameter (\<open>ownerKey?: string\<close>) is \<open>string option\<close>; \<open>None\<close> is
  \<open>undefined\<close>. \<open>!k\<close> holds for \<open>undefined\<close> and for the empty string.
\<close>

definition key_falsy :: "string option \<Rightarrow> bool" where
  "key_falsy k = (case k of None \<Rightarrow> True | Some s \<Rightarrow> s = [])"

definition resolveAuth :: "bool \<Rightarrow> string option \<Rightarrow> string option \<Rightarrow> AuthContext" where
  "resolveAuth authEnabled ownerKey providedKey =
     (if \<not> authEnabled then \<lparr>role = Owner\<rparr>
      else if key_falsy providedKey \<or> key_falsy ownerKey then \<lparr>role = Public\<rparr>
      else if providedKey = ownerKey then \<lparr>role = Owner\<rparr>
      else \<lparr>role = Public\<rparr>)"



section \<open>Protocol dispatcher (src/mcp.ts)\<close>













subsection \<open>Handling one message (src/local/stdio.ts)\<close>




subsection \<open>Reading a response and a thrown value\<close>







section \<open>Statistics (src/tools/stats.ts)\<close>



text \<open>The average over the open rates of the published articles, \<open>0\<close> when there is none.\<close>

definition avgOpenRate :: "rat list \<Rightarrow> rat" where
  "avgOpenRate rates = (if length rates \<noteq> 0 then sum_list rates / of_nat (length rates) else 0)"



section \<open>Examples\<close>

text \<open>
  Concrete stand-ins for the parameters of the model, for the examples that follow the
  theorems. A database of articles that knows two statements and answers them as SQLite
  does: the select by status, and the insert of a title and an id.
\<close>

definition example_run :: "Row list sqlite" where
  "example_run stmt params db =
     (if stmt = ''SELECT * FROM articles WHERE status = ?'' \<and> length params = 1
      then (Inr (filter (\<lambda>r. get r ''status'' = hd params) db), db)
      else if stmt = ''INSERT INTO articles (title, id) VALUES (?, ?) RETURNING *'' \<and> length params = 2
      then (Inr [[(''title'', params ! 0), (''id'', params ! 1)]],
            db @ [[(''title'', params ! 0), (''id'', params ! 1)]])
      else (Inl ''SQLITE_ERROR'', db))"

definition example_articles :: "Row list" where
  "example_articles =
     [[(''id'', VStr ''a1''), (''status'', VStr ''published'')],
      [(''id'', VStr ''a2''), (''status'', VStr ''draft'')]]"

definition example_options :: QueryOptions where
  "example_options =
     \<lparr>table = ''articles'', select = None,
      filters = Some [\<lparr>column = ''status'', op = OpEq, fvalue = VStr ''published''\<rparr>,
                      \<lparr>column = ''id'', op = OpIn, fvalue = VArr []\<rparr>],
      order = None, limit = None, offset = None\<rparr>"


text \<open>
  A database whose content is the list of its tables. A script is statements separated
  by semicolons, executed one after the other until one fails; \<open>CREATE TABLE t\<close> fails
  when \<open>t\<close> exists, anything else is a syntax error. What the statements before the
  failing one did stays, as in SQLite outside a transaction.
\<close>

fun split_on :: "char \<Rightarrow> string \<Rightarrow> string list" where
  "split_on c [] = [[]]"
| "split_on c (x # xs) =
     (if x = c then [] # split_on c xs
      else (case split_on c xs of w # ws \<Rightarrow> (x # w) # ws | [] \<Rightarrow> [[x]]))"

fun example_statements :: "string list \<Rightarrow> string list \<Rightarrow> bool \<times> string list" where
  "example_statements [] d = (True, d)"
| "example_statements (st # sts) d =
     (if take 13 st = ''CREATE TABLE '' \<and> drop 13 st \<notin> set d
      then example_statements sts (d @ [drop 13 st])
      else (False, d))"

definition example_exec :: "string list exec" where
  "example_exec script d = example_statements (split_on (CHR '';'') script) d"

definition example_migrations :: "Migration list" where
  "example_migrations =
     [\<lparr>name = ''001_core.sql'', sql = ''CREATE TABLE articles;CREATE TABLE experts''\<rparr>,
      \<lparr>name = ''002_editorial.sql'', sql = ''CREATE TABLE editorial_notes''\<rparr>]"


definition empty_store :: "string list store" where
  "empty_store = \<lparr>content = [], ledger = None\<rparr>"









text \<open>One length-prefixed message, and the same bytes cut inside the header.\<close>

definition framed_message :: string where
  "framed_message = ''Content-Length: 2'' @ [CR, LF, CR, LF] @ ''{}''"

definition framed_chunks :: "string list" where
  "framed_chunks = [''Content-Length: 2'' @ [CR, LF], [CR, LF] @ ''{}'']"

section \<open>Properties of the auth resolver\<close>

text \<open>
  C7, as stated, at a concrete input: auth is enabled, the configured secret and the
  presented secret are both the empty string, so both are present and exactly equal,
  and the claim grants \<open>owner\<close>. The code's guard \<open>!providedKey || !ownerKey\<close> treats the
  empty string like an absent secret: the caller is \<open>public\<close>.
\<close>

theorem resolveAuth_empty_secret_counterexample:
  "role (resolveAuth True (Some []) (Some [])) = Public \<and>
   role (resolveAuth True (Some []) (Some [])) \<noteq> Owner"
  by (simp add: resolveAuth_def key_falsy_def)

text \<open>
  C7, amended: \<open>resolveAuth\<close> is a function of its three inputs such that, with auth
  disabled, every caller is \<open>owner\<close>; with auth enabled, a caller is \<open>public\<close> when either
  secret is absent or empty or the two secrets differ, and \<open>owner\<close> when the presented
  secret is non-empty and exactly equal to the configured one.
\<close>

theorem resolveAuth_roles:
  "(\<not> authEnabled \<longrightarrow> role (resolveAuth authEnabled ownerKey providedKey) = Owner) \<and>
   (authEnabled \<and> (ownerKey = None \<or> ownerKey = Some [] \<or> providedKey = None \<or> providedKey = Some [] \<or>
       ownerKey \<noteq> providedKey) \<longrightarrow>
     role (resolveAuth authEnabled ownerKey providedKey) = Public) \<and>
   (authEnabled \<and> ownerKey = Some k \<and> providedKey = Some k \<and> k \<noteq> [] \<longrightarrow>
     role (resolveAuth authEnabled ownerKey providedKey) = Owner)"
  by (auto simp: resolveAuth_def key_falsy_def split: option.splits)

theorem resolveAuth_roles_witness:
  "role (resolveAuth False (Some ''s3cret'') None) = Owner \<and>
   role (resolveAuth True (Some ''s3cret'') None) = Public \<and>
   role (resolveAuth True (Some ''s3cret'') (Some ''wrong'')) = Public \<and>
   role (resolveAuth True (Some ''s3cret'') (Some ''s3cret'')) = Owner"
  using resolveAuth_roles [of False "Some ''s3cret''" None "''s3cret''"]
    resolveAuth_roles [of True "Some ''s3cret''" None "''s3cret''"]
    resolveAuth_roles [of True "Some ''s3cret''" "Some ''wrong''" "''s3cret''"]
    resolveAuth_roles [of True "Some ''s3cret''" "Some ''s3cret''" "''s3cret''"]
  by simp


section \<open>Properties of the storage engine\<close>

subsection \<open>Generated ids\<close>







subsection \<open>Insert writes the id into its argument\<close>





lemma insert_row_keeps_id:
  assumes "truthy (get data ''id'')"
    and "insert_row rnd run tbl data db = (data', res, db')"
  shows "data' = data"
  using assms by (auto simp: insert_row_def Let_def split: prod.splits sum.splits)

subsection \<open>An empty \<open>in\<close> list\<close>

lemma filter_clause_empty_in: "empty_in f \<Longrightarrow> filter_clause f = ([], [])"
  by (simp add: empty_in_def filter_clause_def)

lemma clauses_drop_empty_in:
  "concat (map (fst \<circ> filter_clause) (filter (\<lambda>f. \<not> empty_in f) fs)) =
   concat (map (fst \<circ> filter_clause) fs)"
  by (induction fs) (simp_all add: filter_clause_empty_in)

lemma params_drop_empty_in:
  "concat (map (snd \<circ> filter_clause) (filter (\<lambda>f. \<not> empty_in f) fs)) =
   concat (map (snd \<circ> filter_clause) fs)"
  by (induction fs) (simp_all add: filter_clause_empty_in)

lemma buildWhere_drop_empty_in:
  assumes "filter (\<lambda>f. \<not> empty_in f) fs \<noteq> []"
  shows "buildWhere fs = buildWhere (filter (\<lambda>f. \<not> empty_in f) fs)"
proof -
  from assms have "fs \<noteq> []" by auto
  with assms show ?thesis
    by (simp add: buildWhere_def clauses_drop_empty_in params_drop_empty_in)
qed

lemma buildSelect_filters_cong:
  "buildWhere fs = buildWhere fs' \<Longrightarrow>
   buildSelect (opts\<lparr>filters := Some fs\<rparr>) = buildSelect (opts\<lparr>filters := Some fs'\<rparr>)"
  unfolding buildSelect_def by (simp cong: option.case_cong)

text \<open>
  C1, as stated, at a concrete input: the filter list holds \<open>status = 'published'\<close> and an
  \<open>in\<close> filter on \<open>id\<close> with the empty list, the table holds one published article. The
  statement compiled is \<open>SELECT * FROM articles WHERE status = ?\<close> and the published
  article comes back: the returned list is not empty.
\<close>

theorem empty_in_ignored_counterexample:
  "filters example_options =
     Some [\<lparr>column = ''status'', op = OpEq, fvalue = VStr ''published''\<rparr>,
           \<lparr>column = ''id'', op = OpIn, fvalue = VArr []\<rparr>] \<and>
   buildSelect example_options = (''SELECT * FROM articles WHERE status = ?'', [VStr ''published'']) \<and>
   query example_run example_options example_articles =
     (Inr [[(''id'', VStr ''a1''), (''status'', VStr ''published'')]], example_articles)"
  by code_simp

text \<open>
  C1, amended: an \<open>in\<close> filter with an empty value list compiles to no clause and no
  parameter. For every call to \<open>query\<close> whose filter list holds such filters beside at
  least one other filter, the result is the result of the same call without them: the
  rows matching the remaining filters.
\<close>

theorem query_ignores_empty_in:
  assumes "filters opts = Some fs" and "filter (\<lambda>f. \<not> empty_in f) fs \<noteq> []"
  shows "query run opts db = query run (opts\<lparr>filters := Some (filter (\<lambda>f. \<not> empty_in f) fs)\<rparr>) db"
proof -
  have "opts = opts\<lparr>filters := Some fs\<rparr>" using assms(1) by simp
  then have "buildSelect opts = buildSelect (opts\<lparr>filters := Some fs\<rparr>)" by simp
  also have "\<dots> = buildSelect (opts\<lparr>filters := Some (filter (\<lambda>f. \<not> empty_in f) fs)\<rparr>)"
    by (rule buildSelect_filters_cong) (rule buildWhere_drop_empty_in [OF assms(2)])
  finally show ?thesis unfolding query_def by simp
qed


theorem query_ignores_empty_in_witness:
  "filters example_options =
     Some [\<lparr>column = ''status'', op = OpEq, fvalue = VStr ''published''\<rparr>,
           \<lparr>column = ''id'', op = OpIn, fvalue = VArr []\<rparr>] \<and>
   filter (\<lambda>f. \<not> empty_in f)
     [\<lparr>column = ''status'', op = OpEq, fvalue = VStr ''published''\<rparr>,
      \<lparr>column = ''id'', op = OpIn, fvalue = VArr []\<rparr>] =
     [\<lparr>column = ''status'', op = OpEq, fvalue = VStr ''published''\<rparr>] \<and>
   query example_run example_options example_articles =
     query example_run
       (example_options\<lparr>filters := Some [\<lparr>column = ''status'', op = OpEq, fvalue = VStr ''published''\<rparr>]\<rparr>)
       example_articles"
proof -
  have o: "filters example_options =
     Some [\<lparr>column = ''status'', op = OpEq, fvalue = VStr ''published''\<rparr>,
           \<lparr>column = ''id'', op = OpIn, fvalue = VArr []\<rparr>]"
    by (simp add: example_options_def)
  have e: "filter (\<lambda>f. \<not> empty_in f)
     [\<lparr>column = ''status'', op = OpEq, fvalue = VStr ''published''\<rparr>,
      \<lparr>column = ''id'', op = OpIn, fvalue = VArr []\<rparr>] =
     [\<lparr>column = ''status'', op = OpEq, fvalue = VStr ''published''\<rparr>]"
    by (simp add: empty_in_def)
  have n: "filter (\<lambda>f. \<not> empty_in f)
     [\<lparr>column = ''status'', op = OpEq, fvalue = VStr ''published''\<rparr>,
      \<lparr>column = ''id'', op = OpIn, fvalue = VArr []\<rparr>] \<noteq> []"
    by (simp add: empty_in_def)
  from query_ignores_empty_in [OF o n, of example_run example_articles] o e
  show ?thesis by (simp add: empty_in_def)
qed

section \<open>Properties of the migration runner\<close>


lemma run_pending_returned_recorded:
  "run_pending exec applied ms d l = (Returned, (d', l'), t) \<Longrightarrow>
   set l \<subseteq> set l' \<and> (\<forall>m \<in> set ms. name m \<in> applied \<or> name m \<in> set l')"
proof (induction ms arbitrary: d l d' l' t)
  case Nil
  then show ?case by auto
next
  case (Cons m ms)
  show ?case
  proof (cases "name m \<in> applied")
    case True
    with Cons show ?thesis by simp
  next
    case False
    obtain ok d1 where ex: "exec (sql m) d = (ok, d1)" by (cases "exec (sql m) d")
    from Cons.prems False ex have ok: ok by (cases ok) auto
    from Cons.prems False ex ok obtain l1 where li: "ledger_insert (name m) l = Some l1"
      by (cases "ledger_insert (name m) l") auto
    then have l1: "l1 = l @ [name m]" by (auto simp: ledger_insert_def split: if_splits)
    from Cons.prems False ex ok li obtain t2 where
      rp: "run_pending exec applied ms d1 l1 = (Returned, (d', l'), t2)"
      by (auto split: prod.splits)
    from Cons.IH [OF rp] l1 False show ?thesis by auto
  qed
qed

lemma run_pending_all_applied:
  "\<forall>m \<in> set ms. name m \<in> applied \<Longrightarrow> run_pending exec applied ms d l = (Returned, (d, l), [])"
  by (induction ms) auto




text \<open>
  C8. When a run of \<open>migrate\<close> has returned, a second run against the store it left
  returns too, hands no script to \<open>db.exec\<close> (its list of executed scripts is empty) and
  leaves the store as it is, the ledger with it: the count of recorded migrations is
  unchanged.
\<close>

theorem migrate_twice:
  assumes "migrate exec ms s = (Returned, s', t)"
  shows "migrate exec ms s' = (Returned, s', [])"
proof -
  obtain out d l t0 where
    rp: "run_pending exec (set (ledger_rows s)) ms (content s) (ledger_rows s) = (out, (d, l), t0)"
    by (cases "run_pending exec (set (ledger_rows s)) ms (content s) (ledger_rows s)") auto
  with assms have out: "out = Returned" and s': "s' = \<lparr>content = d, ledger = Some l\<rparr>"
    by (auto simp: migrate_def)
  from run_pending_returned_recorded [OF rp [unfolded out]]
  have "\<forall>m \<in> set ms. name m \<in> set l" by auto
  then have "run_pending exec (set l) ms d l = (Returned, (d, l), [])"
    by (rule run_pending_all_applied)
  then show ?thesis by (simp add: migrate_def s' ledger_rows_def)
qed

theorem migrate_twice_witness:
  "migrate example_exec example_migrations empty_store =
     (Returned,
      \<lparr>content = [''articles'', ''experts'', ''editorial_notes''],
       ledger = Some [''001_core.sql'', ''002_editorial.sql'']\<rparr>,
      [(''001_core.sql'', True), (''002_editorial.sql'', True)]) \<and>
   migrate example_exec example_migrations
     \<lparr>content = [''articles'', ''experts'', ''editorial_notes''],
      ledger = Some [''001_core.sql'', ''002_editorial.sql'']\<rparr> =
     (Returned,
      \<lparr>content = [''articles'', ''experts'', ''editorial_notes''],
       ledger = Some [''001_core.sql'', ''002_editorial.sql'']\<rparr>, [])"
proof -
  have m: "migrate example_exec example_migrations empty_store =
     (Returned,
      \<lparr>content = [''articles'', ''experts'', ''editorial_notes''],
       ledger = Some [''001_core.sql'', ''002_editorial.sql'']\<rparr>,
      [(''001_core.sql'', True), (''002_editorial.sql'', True)])"
    by code_simp
  from migrate_twice [OF m] m show ?thesis by simp
qed


section \<open>Properties of the transport framer\<close>

text \<open>
  While the header is buffered and fewer characters follow it than it announces, the
  loop hands over nothing and leaves the buffer as it is.
\<close>

lemma processBuffer_waits:
  assumes "frame_header buffer = Some (n, start)" and "length buffer - start < n"
  shows "processBuffer buffer = ([], buffer)"
proof -
  from assms(1) have "buffer \<noteq> []" by (auto simp: frame_header_def)
  with assms show ?thesis by (subst processBuffer.simps) simp
qed

text \<open>
  C2 fails on the code at this input. The message \<open>Content-Length: 2\<close>, blank line, \<open>{}\<close>
  delivered as one chunk gives the body \<open>{}\<close>. Delivered as two chunks cut after the first
  line end of the header, the first chunk holds no blank line but holds a line end, so
  the line-delimited fallback takes \<open>Content-Length: 2\<close> as a message body and removes it;
  the rest then never matches a header, and \<open>{}\<close> stays in the buffer, never extracted.
\<close>

theorem split_header_loses_message:
  "concat framed_chunks = framed_message \<and>
   feed [] [framed_message] = ([''{}''], []) \<and>
   feed [] framed_chunks = ([''Content-Length: 2''], ''{}'')"
  by code_simp

section \<open>Properties of the dispatcher\<close>






subsection \<open>Notifications\<close>



subsection \<open>The tool name\<close>




subsection \<open>Handler failures\<close>



section \<open>Properties of the rate rounding\<close>







end
